theory Spec2Isabelle
  imports Complex_Main
begin

section \<open>Python values, exceptions and the interpreter state\<close>

text \<open>
  The module \<^verbatim>\<open>atldld/sync.py\<close> holds two functions: \<^verbatim>\<open>get_parallel_transform\<close>
  (the transform engine) and \<^verbatim>\<open>download_parallel_dataset\<close> (the dataset synchronizer).
  Exceptions are values of \<open>py_error\<close>; a computation that may raise returns
  \<open>py_error + 'a\<close>. \<^verbatim>\<open>float64\<close> numbers are idealised as \<open>real\<close>: rounding, overflow,
  \<^verbatim>\<open>inf\<close> and \<^verbatim>\<open>nan\<close> are outside the model. Python's \<^verbatim>\<open>int\<close> is \<open>int\<close>.
\<close>

text \<open>
  The exceptions the module can raise by itself, and \<open>OtherError\<close> for any other one that
  a function it calls may raise.
\<close>

datatype py_error = IndexError | ZeroDivisionError | ValueError | OtherError

text \<open>\<^verbatim>\<open>a // b\<close> on Python ints: floor division, raising on a zero divisor.\<close>

definition py_floordiv :: "int \<Rightarrow> int \<Rightarrow> py_error + int" where
  "py_floordiv a b = (if b = 0 then Inl ZeroDivisionError else Inr (a div b))"

text \<open>\<^verbatim>\<open>xs[i]\<close> on a Python list, for a non-negative index.\<close>

definition py_getitem :: "'a list \<Rightarrow> nat \<Rightarrow> py_error + 'a" where
  "py_getitem xs i = (if i < length xs then Inr (xs ! i) else Inl IndexError)"

text \<open>A list comprehension \<^verbatim>\<open>[f(x) for x in xs]\<close> whose body may raise.\<close>

fun py_listcomp :: "('a \<Rightarrow> py_error + 'b) \<Rightarrow> 'a list \<Rightarrow> py_error + 'b list" where
  "py_listcomp f [] = Inr []"
| "py_listcomp f (x # xs) =
     (case f x of
        Inl e \<Rightarrow> Inl e
      | Inr y \<Rightarrow> (case py_listcomp f xs of Inl e \<Rightarrow> Inl e | Inr ys \<Rightarrow> Inr (y # ys)))"

text \<open>
  \<^verbatim>\<open>2 ** d\<close> for a Python int \<open>d\<close>: an int when \<open>d \<ge> 0\<close>, the float \<open>1 / 2 ** (-d)\<close>
  otherwise; never an exception.
\<close>

definition py_pow2 :: "int \<Rightarrow> real" where
  "py_pow2 d = (if 0 \<le> d then 2 ^ nat d else 1 / 2 ^ nat (- d))"

section \<open>The fragment of numpy the module uses\<close>

text \<open>
  A two-dimensional \<^verbatim>\<open>ndarray\<close> is its shape and its rows. The shape is kept beside the
  rows because an array with no rows still has a column count. One-dimensional arrays
  are plain lists.
\<close>

record 'a ndarray =
  shape :: "nat \<times> nat"
  rows :: "'a list list"

definition wf_array :: "'a ndarray \<Rightarrow> bool" where
  "wf_array a \<longleftrightarrow>
     length (rows a) = fst (shape a) \<and> list_all (\<lambda>r. length r = snd (shape a)) (rows a)"

text \<open>\<^verbatim>\<open>np.prod\<close> of a list of ints.\<close>

definition np_prod :: "int list \<Rightarrow> int" where
  "np_prod xs = prod_list xs"

text \<open>\<^verbatim>\<open>np.ones((r, c))\<close>: a negative dimension is a \<^verbatim>\<open>ValueError\<close>.\<close>

definition np_ones :: "nat \<Rightarrow> int \<Rightarrow> py_error + real ndarray" where
  "np_ones r c =
     (if c < 0 then Inl ValueError
      else Inr \<lparr>shape = (r, nat c), rows = replicate r (replicate (nat c) 1)\<rparr>)"

text \<open>
  \<^verbatim>\<open>np.indices(dims)\<close> has one plane per dimension; plane \<open>a\<close> holds, at every grid
  position, the index of that position along dimension \<open>a\<close>. \<open>index_planes\<close> gives each
  plane flattened in row-major (C) order, the last dimension varying fastest.
\<close>

fun index_planes :: "nat list \<Rightarrow> int list list" where
  "index_planes [] = []"
| "index_planes (d # ds) =
     concat (map (\<lambda>i. replicate (prod_list ds) (int i)) [0..<d])
     # map (\<lambda>p. concat (replicate d p)) (index_planes ds)"

definition np_indices :: "int list \<Rightarrow> py_error + int list list" where
  "np_indices dims =
     (if list_ex (\<lambda>g. g < 0) dims then Inl ValueError
      else Inr (index_planes (map nat dims)))"

text \<open>
  \<^verbatim>\<open>.reshape(2, -1)\<close> of the planes: all elements in row-major order, cut in two rows
  of equal length; an odd number of elements cannot be reshaped.
\<close>

definition np_reshape_2 :: "'a list list \<Rightarrow> py_error + 'a ndarray" where
  "np_reshape_2 planes =
     (let flat = concat planes; h = length flat div 2
      in if odd (length flat) then Inl ValueError
         else Inr \<lparr>shape = (2, h), rows = [take h flat, drop h flat]\<rparr>)"

text \<open>Elementwise \<^verbatim>\<open>arr * k\<close> and \<^verbatim>\<open>arr / k\<close> with a scalar; both build a new array.\<close>

definition np_mul :: "int ndarray \<Rightarrow> int \<Rightarrow> int ndarray" where
  "np_mul a k = a\<lparr>rows := map (map (\<lambda>x. x * k)) (rows a)\<rparr>"

definition np_truediv :: "real ndarray \<Rightarrow> real \<Rightarrow> real ndarray" where
  "np_truediv a k = a\<lparr>rows := map (map (\<lambda>x. x / k)) (rows a)\<rparr>"

text \<open>An int array stored into a float array is converted elementwise.\<close>

definition np_astype_float :: "int ndarray \<Rightarrow> real ndarray" where
  "np_astype_float a = \<lparr>shape = shape a, rows = map (map real_of_int) (rows a)\<rparr>"

text \<open>Broadcasting a two-dimensional value to a target shape.\<close>

definition np_broadcast_to :: "nat \<times> nat \<Rightarrow> 'a ndarray \<Rightarrow> py_error + 'a list list" where
  "np_broadcast_to tgt v =
     (let r = fst tgt; c = snd tgt; vr = fst (shape v); vc = snd (shape v)
      in if (vr = r \<or> vr = 1) \<and> (vc = c \<or> vc = 1) then
           Inr (map (\<lambda>row. if vc = c then row else replicate c (row ! 0))
                  (if vr = r then rows v else replicate r (rows v ! 0)))
         else Inl ValueError)"

text \<open>
  \<^verbatim>\<open>a[idx] = v\<close> for a list \<open>idx\<close> of row numbers: the value is broadcast to
  \<open>(len(idx), ncols)\<close> and written row by row. The result is the new content of \<open>a\<close>.
\<close>

definition np_setitem_rows :: "'a ndarray \<Rightarrow> nat list \<Rightarrow> 'a ndarray \<Rightarrow> py_error + 'a ndarray" where
  "np_setitem_rows a idx v =
     (if list_ex (\<lambda>i. fst (shape a) \<le> i) idx then Inl IndexError
      else case np_broadcast_to (length idx, snd (shape a)) v of
             Inl e \<Rightarrow> Inl e
           | Inr vs \<Rightarrow> Inr (a\<lparr>rows := fold (\<lambda>(i, r) rs. rs[i := r]) (zip idx vs) (rows a)\<rparr>))"

text \<open>\<^verbatim>\<open>a[i] *= s\<close>: row \<open>i\<close> is multiplied in place. The result is the new content of \<open>a\<close>.\<close>

definition np_imul_row :: "real ndarray \<Rightarrow> nat \<Rightarrow> real \<Rightarrow> py_error + real ndarray" where
  "np_imul_row a i s =
     (if fst (shape a) \<le> i then Inl IndexError
      else Inr (a\<lparr>rows := (rows a)[i := map (\<lambda>x. x * s) (rows a ! i)]\<rparr>))"

text \<open>\<^verbatim>\<open>a @ b\<close> on two-dimensional arrays: the inner dimensions must agree.\<close>

definition np_matmul :: "real ndarray \<Rightarrow> real ndarray \<Rightarrow> py_error + real ndarray" where
  "np_matmul a b =
     (if snd (shape a) \<noteq> fst (shape b) then Inl ValueError
      else Inr \<lparr>shape = (fst (shape a), snd (shape b)),
                rows = map (\<lambda>ra. map (\<lambda>j. sum_list (map (\<lambda>l. ra ! l * (rows b ! l ! j))
                                                    [0..<fst (shape b)]))
                                    [0..<snd (shape b)])
                           (rows a)\<rparr>)"

text \<open>\<^verbatim>\<open>a[:n]\<close>: the first \<open>n\<close> rows, fewer when \<open>a\<close> has fewer.\<close>

definition np_take_rows :: "nat \<Rightarrow> 'a ndarray \<Rightarrow> 'a ndarray" where
  "np_take_rows n a = \<lparr>shape = (min n (fst (shape a)), snd (shape a)), rows = take n (rows a)\<rparr>"

text \<open>\<^verbatim>\<open>a[i]\<close>: row \<open>i\<close> as a one-dimensional array.\<close>

definition np_getitem_row :: "'a ndarray \<Rightarrow> nat \<Rightarrow> py_error + 'a list" where
  "np_getitem_row a i = (if i < fst (shape a) then Inr (rows a ! i) else Inl IndexError)"

text \<open>
  \<^verbatim>\<open>xs.reshape(dims)\<close> of a one-dimensional array to two dimensions, row-major. The
  module only reaches it with two non-negative dimensions (\<^verbatim>\<open>np.indices\<close> has already
  rejected negative ones, and there are two variable axes); every other \<open>dims\<close> is
  answered with \<^verbatim>\<open>ValueError\<close> here.
\<close>

definition np_reshape_grid :: "'a list \<Rightarrow> int list \<Rightarrow> py_error + 'a ndarray" where
  "np_reshape_grid xs dims =
     (case dims of
        [g0, g1] \<Rightarrow>
          (if 0 \<le> g0 \<and> 0 \<le> g1 \<and> nat g0 * nat g1 = length xs then
             Inr \<lparr>shape = (nat g0, nat g1),
                  rows = map (\<lambda>i. take (nat g1) (drop (i * nat g1) xs)) [0..<nat g0]\<rparr>
           else Inl ValueError)
      | _ \<Rightarrow> Inl ValueError)"

section \<open>The store and the record of executed numpy operations\<close>

text \<open>
  Arrays are mutable objects passed by reference: the store \<open>heap\<close> maps an address (an
  index) to the array that lives there, and a new array is put at the first unused
  address. \<open>ops\<close> records, in order, the numpy operations that have been executed.
\<close>

datatype np_op =
  OP_prod | OP_ones | OP_imul | OP_indices | OP_mul | OP_setitem | OP_matmul | OP_truediv

record pstate =
  heap :: "real ndarray list"
  ops :: "np_op list"

type_synonym 'a py = "pstate \<Rightarrow> (py_error + 'a) \<times> pstate"

definition bind :: "'a py \<Rightarrow> ('a \<Rightarrow> 'b py) \<Rightarrow> 'b py" where
  "bind m f = (\<lambda>s. case m s of (Inl e, s') \<Rightarrow> (Inl e, s') | (Inr x, s') \<Rightarrow> f x s')"

text \<open>A step of plain Python (no numpy call, no store access).\<close>

definition py :: "py_error + 'a \<Rightarrow> 'a py" where
  "py r = (\<lambda>s. (r, s))"

text \<open>A numpy operation that reads its operands and builds its result as a value.\<close>

definition call :: "np_op \<Rightarrow> py_error + 'a \<Rightarrow> 'a py" where
  "call f r = (\<lambda>s. (r, s\<lparr>ops := ops s @ [f]\<rparr>))"

definition alloc :: "real ndarray \<Rightarrow> nat py" where
  "alloc a = (\<lambda>s. (Inr (length (heap s)), s\<lparr>heap := heap s @ [a]\<rparr>))"

definition deref :: "nat \<Rightarrow> real ndarray py" where
  "deref p = (\<lambda>s. (Inr (heap s ! p), s))"

text \<open>An operation that writes into the array at address \<open>p\<close>.\<close>

definition modify :: "np_op \<Rightarrow> nat \<Rightarrow> (real ndarray \<Rightarrow> py_error + real ndarray) \<Rightarrow> unit py" where
  "modify f p g =
     (\<lambda>s. case g (heap s ! p) of
            Inl e \<Rightarrow> (Inl e, s\<lparr>ops := ops s @ [f]\<rparr>)
          | Inr a \<Rightarrow> (Inr (), s\<lparr>heap := (heap s)[p := a], ops := ops s @ [f]\<rparr>))"

section \<open>The displacement field\<close>

text \<open>
  Modelled from the spec: the class \<^verbatim>\<open>DisplacementField\<close> lives in \<^verbatim>\<open>atldld/base.py\<close>,
  which is not part of the sources at hand. The spec describes a displacement field as a
  pair of two-dimensional numeric grids \<open>(tx, ty)\<close> of the shape of the iteration grid.
\<close>

record displacement_field =
  tx :: "real ndarray"
  ty :: "real ndarray"

text \<open>
  Modelled from the spec: \<^verbatim>\<open>DisplacementField.from_transform\<close>, of \<^verbatim>\<open>atldld/base.py\<close> too,
  constructs the displacement field from the two coordinate grids.
\<close>

definition from_transform :: "real ndarray \<Rightarrow> real ndarray \<Rightarrow> displacement_field" where
  "from_transform f_x f_y = \<lparr>tx = f_x, ty = f_y\<rparr>"

section \<open>\<^verbatim>\<open>get_parallel_transform\<close>\<close>

definition refspace :: "(string \<times> int) list" where
  "refspace = [(''coronal'', 13200), (''transverse'', 8000), (''sagittal'', 11400)]"

text \<open>
  Lines 79 to 82: the position of the fixed axis, the positions of the variable axes and
  the grid shape. An unknown axis name leaves the first comprehension empty, so that its
  element 0 does not exist.
\<close>

definition select_axes :: "string \<Rightarrow> int \<Rightarrow> py_error + (nat \<times> nat list \<times> int list)" where
  "select_axes axis downsample_ref =
     (case py_getitem [i. (i, a) \<leftarrow> enumerate 0 refspace, fst a = axis] 0 of
        Inl e \<Rightarrow> Inl e
      | Inr axis_fixed \<Rightarrow>
          (let axes_variable = [i. (i, a) \<leftarrow> enumerate 0 refspace, fst a \<noteq> axis]
           in case py_listcomp (\<lambda>i. py_floordiv (snd (refspace ! i)) downsample_ref) axes_variable of
                Inl e \<Rightarrow> Inl e
              | Inr grid_shape \<Rightarrow> Inr (axis_fixed, axes_variable, grid_shape)))"

text \<open>Lines 85 to 87: \<^verbatim>\<open>coords_ref\<close> is created and filled in place; its address is returned.\<close>

definition make_coords_ref ::
  "nat \<Rightarrow> nat list \<Rightarrow> int list \<Rightarrow> int \<Rightarrow> real \<Rightarrow> int \<Rightarrow> nat py" where
  "make_coords_ref axis_fixed axes_variable grid_shape n_pixels slice_coordinate downsample_ref =
     bind (call OP_ones (np_ones 4 n_pixels)) (\<lambda>ones4.
     bind (alloc ones4) (\<lambda>coords_ref.
     bind (modify OP_imul coords_ref (\<lambda>a. np_imul_row a axis_fixed slice_coordinate)) (\<lambda>_.
     bind (call OP_indices (np_indices grid_shape)) (\<lambda>planes.
     bind (py (np_reshape_2 planes)) (\<lambda>idx.
     bind (call OP_mul (Inr (np_mul idx downsample_ref))) (\<lambda>scaled.
     bind (modify OP_setitem coords_ref
             (\<lambda>a. np_setitem_rows a axes_variable (np_astype_float scaled))) (\<lambda>_.
     py (Inr coords_ref))))))))"

text \<open>Lines 89 and 90: \<^verbatim>\<open>coords_temp\<close> is created and its rows 0 and 1 are overwritten.\<close>

definition make_coords_temp :: "nat \<Rightarrow> nat \<Rightarrow> int \<Rightarrow> nat py" where
  "make_coords_temp affine_3d coords_ref n_pixels =
     bind (call OP_ones (np_ones 3 n_pixels)) (\<lambda>ones3.
     bind (alloc ones3) (\<lambda>coords_temp.
     bind (deref affine_3d) (\<lambda>a3.
     bind (deref coords_ref) (\<lambda>cr.
     bind (call OP_matmul (np_matmul a3 cr)) (\<lambda>prod3.
     bind (modify OP_setitem coords_temp
             (\<lambda>a. np_setitem_rows a [0, 1] (np_take_rows 2 prod3))) (\<lambda>_.
     py (Inr coords_temp)))))))"

text \<open>
  Lines 94 and 95, for row \<open>r\<close>:
  \<^verbatim>\<open>coords_img[r].reshape(grid_shape) / (2 ** downsample_img)\<close>.
\<close>

definition scaled_grid :: "real ndarray \<Rightarrow> nat \<Rightarrow> int list \<Rightarrow> int \<Rightarrow> real ndarray py" where
  "scaled_grid coords_img r grid_shape downsample_img =
     bind (py (np_getitem_row coords_img r)) (\<lambda>row.
     bind (py (np_reshape_grid row grid_shape)) (\<lambda>grid.
     call OP_truediv (Inr (np_truediv grid (py_pow2 downsample_img)))))"

text \<open>
  The function, lines 74 to 101. The arguments \<open>affine_2d\<close> and \<open>affine_3d\<close> are
  addresses of arrays in the store; \<open>slice_coordinate\<close>, \<open>axis\<close> and the two downsampling
  factors are immutable values. After the axes (lines 79 to 82) come \<^verbatim>\<open>np.prod\<close> (line 83),
  the two coordinate arrays (lines 85 to 90), the second matrix product (line 92), the two
  grids (lines 94 and 95) and the displacement field (line 97).
\<close>

definition get_parallel_transform ::
  "real \<Rightarrow> nat \<Rightarrow> nat \<Rightarrow> string \<Rightarrow> int \<Rightarrow> int \<Rightarrow> displacement_field py" where
  "get_parallel_transform slice_coordinate affine_2d affine_3d axis downsample_ref downsample_img =
     bind (py (select_axes axis downsample_ref)) (\<lambda>(axis_fixed, axes_variable, grid_shape).
     bind (call OP_prod (Inr (np_prod grid_shape))) (\<lambda>n_pixels.
     bind (make_coords_ref axis_fixed axes_variable grid_shape n_pixels
             slice_coordinate downsample_ref) (\<lambda>coords_ref.
     bind (make_coords_temp affine_3d coords_ref n_pixels) (\<lambda>coords_temp.
     bind (deref affine_2d) (\<lambda>a2.
     bind (deref coords_temp) (\<lambda>ct.
     bind (call OP_matmul (np_matmul a2 ct)) (\<lambda>coords_img.
     bind (scaled_grid coords_img 0 grid_shape downsample_img) (\<lambda>t_x.
     bind (scaled_grid coords_img 1 grid_shape downsample_img) (\<lambda>t_y.
     py (Inr (from_transform t_x t_y)))))))))))"

section \<open>\<^verbatim>\<open>download_parallel_dataset\<close>\<close>

text \<open>
  The functions \<^verbatim>\<open>get_2d_bulk\<close>, \<^verbatim>\<open>get_3d\<close>, \<^verbatim>\<open>CommonQueries.get_axis\<close>,
  \<^verbatim>\<open>xy_to_pir_API_single\<close> and \<^verbatim>\<open>get_image\<close> live in \<^verbatim>\<open>atldld/utils.py\<close>, which is not
  part of the sources at hand: they are parameters of the model. Each is a function of its
  arguments that returns a value or raises. The dictionary returned by \<^verbatim>\<open>get_2d_bulk\<close> is
  the list of its items in iteration order; arrays are given by their address in the store.
  \<open>'img\<close> is the type of downloaded images.
\<close>

record 'img collaborators =
  get_2d_bulk :: "int \<Rightarrow> py_error + (int \<times> nat \<times> int) list"
  get_3d :: "int \<Rightarrow> py_error + nat"
  get_axis :: "int \<Rightarrow> py_error + string"
  xy_to_pir_API_single :: "real \<Rightarrow> real \<Rightarrow> int \<Rightarrow> py_error + real \<times> real \<times> real"
  get_image :: "int \<Rightarrow> bool \<Rightarrow> int \<Rightarrow> py_error + 'img"

text \<open>The elements of the tuples the generator yields; a tuple is the list of its elements.\<close>

datatype 'img py_value = PyInt int | PyFloat real | PyImage 'img | PyField displacement_field

text \<open>
  The \<^verbatim>\<open>for\<close> loop of lines 186 to 209 over the sorted metadata. The result is the list of
  the tuples yielded, in order, with the exception that ended the generator (\<open>None\<close> when
  it was exhausted), and the final state.
\<close>

fun dataset_loop ::
  "'img collaborators \<Rightarrow> string \<Rightarrow> nat \<Rightarrow> int \<Rightarrow> real \<times> real \<Rightarrow> bool \<Rightarrow> int \<Rightarrow>
   (int \<times> nat \<times> int) list \<Rightarrow> pstate \<Rightarrow> ('img py_value list list \<times> py_error option) \<times> pstate" where
  "dataset_loop C axis affine_3d downsample_ref detection_xy include_expression downsample_img [] s =
     (([], None), s)"
| "dataset_loop C axis affine_3d downsample_ref detection_xy include_expression downsample_img
     ((image_id, affine_2d, section_number) # rest) s =
     (case xy_to_pir_API_single C (fst detection_xy) (snd detection_xy) image_id of
        Inl e \<Rightarrow> (([], Some e), s)
      | Inr (p, i, r) \<Rightarrow>
          (let slice_ref_coordinate = (if axis = ''coronal'' then p else r)
           in case get_parallel_transform slice_ref_coordinate affine_2d affine_3d axis
                     downsample_ref downsample_img s of
                (Inl e, s1) \<Rightarrow> (([], Some e), s1)
              | (Inr df, s1) \<Rightarrow>
                  (case get_image C image_id False downsample_img of
                     Inl e \<Rightarrow> (([], Some e), s1)
                   | Inr img \<Rightarrow>
                       if \<not> include_expression then
                         (case dataset_loop C axis affine_3d downsample_ref detection_xy
                                 include_expression downsample_img rest s1 of
                            ((ys, err), s2) \<Rightarrow>
                              (([PyInt image_id, PyFloat slice_ref_coordinate, PyImage img,
                                 PyField df] # ys, err), s2))
                       else
                         (case get_image C image_id True downsample_img of
                            Inl e \<Rightarrow> (([], Some e), s1)
                          | Inr img_expression \<Rightarrow>
                              (case dataset_loop C axis affine_3d downsample_ref detection_xy
                                      include_expression downsample_img rest s1 of
                                 ((ys, err), s2) \<Rightarrow>
                                   (([PyInt image_id, PyFloat slice_ref_coordinate, PyImage img,
                                      PyField df, PyImage img_expression] # ys, err), s2))))))"

text \<open>Lines 171 to 177: the items sorted by \<^verbatim>\<open>-int(section_number)\<close>; \<^verbatim>\<open>sorted\<close> is stable.\<close>

definition sorted_metadata :: "(int \<times> nat \<times> int) list \<Rightarrow> (int \<times> nat \<times> int) list" where
  "sorted_metadata metadata_2d_dict =
     sort_key (\<lambda>x. - snd (snd x))
       [(image_id, affine_2d, section_number).
          (image_id, (affine_2d, section_number)) \<leftarrow> metadata_2d_dict]"

definition download_parallel_dataset ::
  "'img collaborators \<Rightarrow> int \<Rightarrow> int \<Rightarrow> real \<times> real \<Rightarrow> bool \<Rightarrow> int \<Rightarrow> pstate \<Rightarrow>
   ('img py_value list list \<times> py_error option) \<times> pstate" where
  "download_parallel_dataset C dataset_id downsample_ref detection_xy include_expression
     downsample_img s =
     (case get_2d_bulk C dataset_id of
        Inl e \<Rightarrow> (([], Some e), s)
      | Inr metadata_2d_dict \<Rightarrow>
          (let metadata_2d = sorted_metadata metadata_2d_dict
           in case get_3d C dataset_id of
                Inl e \<Rightarrow> (([], Some e), s)
              | Inr affine_3d \<Rightarrow>
                  (case get_axis C dataset_id of
                     Inl e \<Rightarrow> (([], Some e), s)
                   | Inr axis \<Rightarrow>
                       dataset_loop C axis affine_3d downsample_ref detection_xy
                         include_expression downsample_img metadata_2d s)))"

section \<open>The transform as the specification words it\<close>

text \<open>
  The following definitions follow the specification of the transform engine, point by
  point instead of array by array; the theorems below compare them with the code.
  The reference space descriptor gives each axis its native extent; the two axes other
  than the slicing axis, in their listed order, span the grid.
\<close>

definition axis_known :: "string \<Rightarrow> bool" where
  "axis_known axis \<longleftrightarrow> axis = ''coronal'' \<or> axis = ''transverse'' \<or> axis = ''sagittal''"

definition spec_extent :: "string \<Rightarrow> real" where
  "spec_extent a =
     (if a = ''coronal'' then 13200 else if a = ''transverse'' then 8000 else 11400)"

definition spec_variable_axes :: "string \<Rightarrow> string \<times> string" where
  "spec_variable_axes axis =
     (if axis = ''coronal'' then (''transverse'', ''sagittal'')
      else if axis = ''transverse'' then (''coronal'', ''sagittal'')
      else (''coronal'', ''transverse''))"

definition spec_grid_shape :: "string \<Rightarrow> int \<Rightarrow> nat \<times> nat" where
  "spec_grid_shape axis ds =
     (nat \<lfloor>spec_extent (fst (spec_variable_axes axis)) / of_int ds\<rfloor>,
      nat \<lfloor>spec_extent (snd (spec_variable_axes axis)) / of_int ds\<rfloor>)"

text \<open>
  The homogeneous reference coordinate of grid index \<open>(i, j)\<close>: the slice coordinate on
  the fixed axis, the scaled grid indices on the variable axes, and a final one.
\<close>

definition spec_ref_point :: "string \<Rightarrow> real \<Rightarrow> int \<Rightarrow> nat \<Rightarrow> nat \<Rightarrow> real list" where
  "spec_ref_point axis c ds i j =
     (if axis = ''coronal'' then [c, real i * of_int ds, real j * of_int ds, 1]
      else if axis = ''transverse'' then [real i * of_int ds, c, real j * of_int ds, 1]
      else [real i * of_int ds, real j * of_int ds, c, 1])"

text \<open>A matrix, given by its rows, applied to a vector.\<close>

definition affine_apply :: "real list list \<Rightarrow> real list \<Rightarrow> real list" where
  "affine_apply m v = map (\<lambda>row. sum_list (map2 (*) row v)) m"

text \<open>Section space: the first two coordinates of the image under \<open>affine_3d\<close>, and a one.\<close>

definition spec_section_point :: "real ndarray \<Rightarrow> real list \<Rightarrow> real list" where
  "spec_section_point a3 p = take 2 (affine_apply (rows a3) p) @ [1]"

definition spec_pixel :: "real ndarray \<Rightarrow> real ndarray \<Rightarrow> real list \<Rightarrow> real list" where
  "spec_pixel a2 a3 p = affine_apply (rows a2) (spec_section_point a3 p)"

text \<open>The array with \<open>n\<close> rows whose column \<open>k\<close>, for \<open>k < N\<close>, is the vector \<open>p k\<close>.\<close>

definition cols_array :: "nat \<Rightarrow> nat \<Rightarrow> (nat \<Rightarrow> real list) \<Rightarrow> real ndarray" where
  "cols_array n N p = \<lparr>shape = (n, N), rows = map (\<lambda>l. map (\<lambda>k. p k ! l) [0..<N]) [0..<n]\<rparr>"

text \<open>
  The \<open>4 \<times> N\<close> array of reference coordinates and the \<open>3 \<times> N\<close> array of section
  coordinates: column \<open>k\<close> belongs to grid index \<open>(k div g1, k mod g1)\<close>, which is
  row-major order over the grid.
\<close>

definition spec_coords_ref :: "string \<Rightarrow> real \<Rightarrow> int \<Rightarrow> real ndarray" where
  "spec_coords_ref axis c ds =
     (case spec_grid_shape axis ds of
        (g0, g1) \<Rightarrow> cols_array 4 (g0 * g1) (\<lambda>k. spec_ref_point axis c ds (k div g1) (k mod g1)))"

definition spec_coords_temp :: "real ndarray \<Rightarrow> string \<Rightarrow> real \<Rightarrow> int \<Rightarrow> real ndarray" where
  "spec_coords_temp a3 axis c ds =
     (case spec_grid_shape axis ds of
        (g0, g1) \<Rightarrow> cols_array 3 (g0 * g1)
           (\<lambda>k. spec_section_point a3 (spec_ref_point axis c ds (k div g1) (k mod g1))))"

text \<open>Coordinate \<open>r\<close> of the pixel of every grid index, divided by \<open>2 ** downsample_img\<close>.\<close>

definition spec_grid ::
  "nat \<Rightarrow> real \<Rightarrow> real ndarray \<Rightarrow> real ndarray \<Rightarrow> string \<Rightarrow> int \<Rightarrow> int \<Rightarrow> real ndarray" where
  "spec_grid r c a2 a3 axis ds di =
     (case spec_grid_shape axis ds of
        (g0, g1) \<Rightarrow>
          \<lparr>shape = (g0, g1),
           rows = map (\<lambda>i. map (\<lambda>j. spec_pixel a2 a3 (spec_ref_point axis c ds i j) ! r / 2 powi di)
                              [0..<g1]) [0..<g0]\<rparr>)"

definition compute_transform_spec ::
  "real \<Rightarrow> real ndarray \<Rightarrow> real ndarray \<Rightarrow> string \<Rightarrow> int \<Rightarrow> int \<Rightarrow> displacement_field" where
  "compute_transform_spec c a2 a3 axis ds di =
     \<lparr>tx = spec_grid 0 c a2 a3 axis ds di, ty = spec_grid 1 c a2 a3 axis ds di\<rparr>"

text \<open>The pair \<open>(tx[i, j], ty[i, j])\<close> of a displacement field.\<close>

definition field_at :: "displacement_field \<Rightarrow> nat \<Rightarrow> nat \<Rightarrow> real \<times> real" where
  "field_at df i j = (rows (tx df) ! i ! j, rows (ty df) ! i ! j)"

text \<open>
  The inputs of the identity law: the \<open>3 \<times> 4\<close> matrix that copies the two variable axes,
  in their order, and drops the fixed axis, and the \<open>2 \<times> 3\<close> matrix that copies both
  coordinates.
\<close>

definition canonical_embedding :: "string \<Rightarrow> real ndarray" where
  "canonical_embedding axis =
     \<lparr>shape = (3, 4),
      rows = (if axis = ''coronal'' then [[0, 1, 0, 0], [0, 0, 1, 0], [0, 0, 0, 1]]
              else if axis = ''transverse'' then [[1, 0, 0, 0], [0, 0, 1, 0], [0, 0, 0, 1]]
              else [[1, 0, 0, 0], [0, 1, 0, 0], [0, 0, 0, 1]])\<rparr>"

definition identity_2d :: "real ndarray" where
  "identity_2d = \<lparr>shape = (2, 3), rows = [[1, 0, 0], [0, 1, 0]]\<rparr>"

text \<open>The pair \<open>(tx[i, j], ty[i, j])\<close> of the field a call returned, if it returned one.\<close>

definition result_field_at ::
  "(py_error + displacement_field) \<times> pstate \<Rightarrow> nat \<Rightarrow> nat \<Rightarrow> (real \<times> real) option" where
  "result_field_at res i j =
     (case fst res of Inl e \<Rightarrow> None | Inr df \<Rightarrow> Some (field_at df i j))"

section \<open>Auxiliary notions for the proofs\<close>

text \<open>Positions in \<open>refspace\<close> of the fixed axis and of the two variable axes.\<close>

definition axis_pos :: "string \<Rightarrow> nat \<times> nat \<times> nat" where
  "axis_pos axis =
     (if axis = ''coronal'' then (0, 1, 2) else if axis = ''transverse'' then (1, 0, 2)
      else (2, 0, 1))"

text \<open>The numpy operations of a complete call, in the order of execution.\<close>

definition ref_ops :: "np_op list" where
  "ref_ops = [OP_ones, OP_imul, OP_indices, OP_mul, OP_setitem]"

definition temp_ops :: "np_op list" where
  "temp_ops = [OP_ones, OP_matmul, OP_setitem]"

definition gpt_ops :: "np_op list" where
  "gpt_ops = [OP_prod] @ ref_ops @ temp_ops @ [OP_matmul, OP_truediv, OP_truediv]"

text \<open>
  A computation keeps the first \<open>n\<close> cells of the store: started in a store with at least
  \<open>n\<close> cells, it ends in one whose first \<open>n\<close> cells are the same.
\<close>

definition keeps_below :: "nat \<Rightarrow> 'a py \<Rightarrow> bool" where
  "keeps_below n m \<longleftrightarrow>
     (\<forall>s. n \<le> length (heap s) \<longrightarrow>
        n \<le> length (heap (snd (m s))) \<and> take n (heap (snd (m s))) = take n (heap s))"

section \<open>Concrete inputs\<close>

text \<open>
  A 3D affine that sends the reference point \<open>(p, i, r)\<close> to \<open>(r, i, p)\<close>, a 2D affine that
  translates by \<open>(5, 6)\<close>, the same translation as a square homogeneous matrix, and stores
  that hold them.
\<close>

definition ex_affine_3d :: "real ndarray" where
  "ex_affine_3d = \<lparr>shape = (3, 4), rows = [[0, 0, 1, 0], [0, 1, 0, 0], [1, 0, 0, 0]]\<rparr>"

definition ex_affine_2d :: "real ndarray" where
  "ex_affine_2d = \<lparr>shape = (2, 3), rows = [[1, 0, 5], [0, 1, 6]]\<rparr>"

definition ex_affine_2d_square :: "real ndarray" where
  "ex_affine_2d_square = \<lparr>shape = (3, 3), rows = [[1, 0, 5], [0, 1, 6], [0, 0, 1]]\<rparr>"

definition ex_state :: pstate where
  "ex_state = \<lparr>heap = [ex_affine_2d, ex_affine_3d, ex_affine_2d_square], ops = []\<rparr>"

definition ex_identity_state :: pstate where
  "ex_identity_state = \<lparr>heap = [identity_2d, canonical_embedding ''coronal''], ops = []\<rparr>"

text \<open>
  A dataset of three images with section numbers 10, 30 and 20, whose collaborators
  always answer; an image is stood for by a number.
\<close>

definition ex_collaborators :: "nat collaborators" where
  "ex_collaborators =
     \<lparr>get_2d_bulk = (\<lambda>dataset_id. Inr [(101, 0, 10), (102, 0, 30), (103, 0, 20)]),
      get_3d = (\<lambda>dataset_id. Inr 1),
      get_axis = (\<lambda>dataset_id. Inr ''coronal''),
      xy_to_pir_API_single = (\<lambda>x y image_id. Inr (real_of_int image_id, 0, 1)),
      get_image = (\<lambda>image_id expression downsample. Inr (if expression then 1 else 0))\<rparr>"

definition ex_field :: displacement_field where
  "ex_field = \<lparr>tx = \<lparr>shape = (1, 1), rows = [[5]]\<rparr>, ty = \<lparr>shape = (1, 1), rows = [[6]]\<rparr>\<rparr>"

section \<open>Index arithmetic of row-major order\<close>

lemma concat_map_replicate_upt:
  "concat (map (\<lambda>i. replicate n (f i)) [0..<m]) = map (\<lambda>k. f (k div n)) [0..<m * n]"
proof (induction m)
  case 0
  show ?case by simp
next
  case (Suc m)
  have "map (\<lambda>k. f (k div n)) [0..<Suc m * n] =
        map (\<lambda>k. f (k div n)) [0..<m * n] @ map (\<lambda>k. f (k div n)) [m * n..<m * n + n]"
    using upt_add_eq_append[of 0 "m * n" n] by (simp add: add.commute)
  also have "map (\<lambda>k. f (k div n)) [m * n..<m * n + n] = replicate n (f m)"
    by (rule nth_equalityI) (simp_all add: div_nat_eqI)
  finally show ?case using Suc by simp
qed

lemma concat_replicate_map_upt:
  "concat (replicate m (map f [0..<n])) = map (\<lambda>k. f (k mod n)) [0..<m * n]"
proof (induction m)
  case 0
  show ?case by simp
next
  case (Suc m)
  have "map (\<lambda>k. f (k mod n)) [0..<Suc m * n] =
        map (\<lambda>k. f (k mod n)) [0..<n] @ map (\<lambda>k. f (k mod n)) [n..<n + m * n]"
    using upt_add_eq_append[of 0 n "m * n"] by simp
  also have "map (\<lambda>k. f (k mod n)) [0..<n] = map f [0..<n]"
    by simp
  also have "map (\<lambda>k. f (k mod n)) [n..<n + m * n] = map (\<lambda>k. f (k mod n)) [0..<m * n]"
    by (rule nth_equalityI) simp_all
  finally show ?case using Suc by simp
qed

lemma reshape_map_upt:
  "map (\<lambda>i. take n (drop (i * n) (map f [0..<m * n]))) [0..<m] =
   map (\<lambda>i. map (\<lambda>j. f (i * n + j)) [0..<n]) [0..<m]"
proof (rule map_cong[OF refl])
  fix i assume "i \<in> set [0..<m]"
  then have "Suc i \<le> m" by simp
  then have "Suc i * n \<le> m * n" by (rule mult_le_mono1)
  then have le: "i * n + n \<le> m * n" by (simp add: add.commute)
  have "take n (drop (i * n) (map f [0..<m * n])) = map f [i * n..<i * n + n]"
    using le by (simp add: take_map drop_map)
  also have "\<dots> = map (\<lambda>j. f (i * n + j)) [0..<n]"
    by (rule nth_equalityI) simp_all
  finally show "take n (drop (i * n) (map f [0..<m * n])) = map (\<lambda>j. f (i * n + j)) [0..<n]" .
qed

lemma sum_list_nth_map2:
  assumes "length ra = n" "length v = n"
  shows "(\<Sum>l\<leftarrow>[0..<n]. ra ! l * v ! l) = sum_list (map2 (*) ra (v::real list))"
proof -
  have "map2 (*) ra v = map (\<lambda>l. ra ! l * v ! l) [0..<n]"
    by (rule nth_equalityI) (use assms in simp_all)
  then show ?thesis by simp
qed

lemma upt_0_3: "[0..<3] = [0, 1, 2]"
  by (simp add: upt_rec)

lemma upt_0_4: "[0..<4] = [0, 1, 2, 3]"
  by (simp add: upt_rec)

lemma replicate_4: "replicate 4 x = [x, x, x, x]"
  by (simp add: numeral_eq_Suc)

lemma replicate_3: "replicate 3 x = [x, x, x]"
  by (simp add: numeral_eq_Suc)

lemma rows_two_or_more:
  assumes "wf_array a" "2 \<le> fst (shape a)"
  obtains r0 r1 rest where "rows a = r0 # r1 # rest"
proof -
  have "2 \<le> length (rows a)" using assms by (simp add: wf_array_def)
  then obtain r0 r1 rest where "rows a = r0 # r1 # rest"
    by (cases "rows a"; simp; cases "tl (rows a)"; simp)
  then show ?thesis by (rule that)
qed

section \<open>Running the state monad\<close>

lemma bind_py: "bind (py r) f s = (case r of Inl e \<Rightarrow> (Inl e, s) | Inr x \<Rightarrow> f x s)"
  by (simp add: bind_def py_def split: sum.splits)

lemma bind_call:
  "bind (call c r) f s =
     (case r of Inl e \<Rightarrow> (Inl e, s\<lparr>ops := ops s @ [c]\<rparr>) | Inr x \<Rightarrow> f x (s\<lparr>ops := ops s @ [c]\<rparr>))"
  by (simp add: bind_def call_def split: sum.splits)

lemma bind_alloc: "bind (alloc a) f s = f (length (heap s)) (s\<lparr>heap := heap s @ [a]\<rparr>)"
  by (simp add: bind_def alloc_def)

lemma bind_deref: "bind (deref p) f s = f (heap s ! p) s"
  by (simp add: bind_def deref_def)

lemma bind_modify:
  "bind (modify c p g) f s =
     (case g (heap s ! p) of
        Inl e \<Rightarrow> (Inl e, s\<lparr>ops := ops s @ [c]\<rparr>)
      | Inr a \<Rightarrow> f () (s\<lparr>heap := (heap s)[p := a], ops := ops s @ [c]\<rparr>))"
  by (simp add: bind_def modify_def split: sum.splits)

lemmas bind_simps = bind_py bind_call bind_alloc bind_deref bind_modify

lemma py_apply: "py r s = (r, s)"
  by (simp add: py_def)

section \<open>The numpy operations on the arrays of the transform\<close>

lemma py_pow2_powi: "py_pow2 d = 2 powi d"
  by (simp add: py_pow2_def power_int_def inverse_eq_divide power_one_over)

lemma np_prod_2: "np_prod [int a, int b] = int (a * b)"
  by (simp add: np_prod_def)

lemma np_ones_nat: "np_ones r (int n) = Inr \<lparr>shape = (r, n), rows = replicate r (replicate n 1)\<rparr>"
  by (simp add: np_ones_def)

lemma np_ones_nat2:
  "np_ones r (int a * int b) = Inr \<lparr>shape = (r, a * b), rows = replicate r (replicate (a * b) 1)\<rparr>"
  using np_ones_nat[of r "a * b"] by simp

lemma np_indices_2:
  "np_indices [int g0, int g1] =
     Inr [map (\<lambda>k. int (k div g1)) [0..<g0 * g1], map (\<lambda>k. int (k mod g1)) [0..<g0 * g1]]"
proof -
  have "concat (map (\<lambda>i. replicate (Suc 0) (int i)) [0..<g1]) = map int [0..<g1]"
    using concat_map_replicate_upt[of "Suc 0" int g1] by simp
  then show ?thesis
    by (simp add: np_indices_def concat_map_replicate_upt concat_replicate_map_upt)
qed

lemma np_reshape_2_pair:
  "np_reshape_2 [map f [0..<n], map g [0..<n]] =
     Inr \<lparr>shape = (2, n), rows = [map f [0..<n], map g [0..<n]]\<rparr>"
  by (simp add: np_reshape_2_def Let_def)

lemma np_setitem_rows_2:
  "snd (shape a) = c \<Longrightarrow> i0 < fst (shape a) \<Longrightarrow> i1 < fst (shape a) \<Longrightarrow>
   np_setitem_rows a [i0, i1] \<lparr>shape = (2, c), rows = [r0, r1]\<rparr> =
     Inr (a\<lparr>rows := (rows a)[i0 := r0, i1 := r1]\<rparr>)"
  by (simp add: np_setitem_rows_def np_broadcast_to_def Let_def)

lemma np_reshape_grid_2:
  "np_reshape_grid (map f [0..<g0 * g1]) [int g0, int g1] =
     Inr \<lparr>shape = (g0, g1), rows = map (\<lambda>i. map (\<lambda>j. f (i * g1 + j)) [0..<g1]) [0..<g0]\<rparr>"
  by (simp add: np_reshape_grid_def reshape_map_upt)

lemma np_matmul_cols:
  assumes "wf_array a" "snd (shape a) = n" "\<And>k. k < N \<Longrightarrow> length (p k) = n"
  shows "np_matmul a (cols_array n N p) =
         Inr \<lparr>shape = (fst (shape a), N),
              rows = map (\<lambda>ra. map (\<lambda>k. sum_list (map2 (*) ra (p k))) [0..<N]) (rows a)\<rparr>"
proof -
  have "map (\<lambda>j. \<Sum>l\<leftarrow>[0..<n]. ra ! l * (map (\<lambda>l. map (\<lambda>k. p k ! l) [0..<N]) [0..<n] ! l ! j)) [0..<N]
      = map (\<lambda>k. sum_list (map2 (*) ra (p k))) [0..<N]" if "ra \<in> set (rows a)" for ra
  proof (rule map_cong[OF refl])
    fix j assume "j \<in> set [0..<N]"
    then have j: "j < N" by simp
    have len: "length ra = n" using that assms(1,2) by (simp add: wf_array_def list_all_iff)
    have "(\<Sum>l\<leftarrow>[0..<n]. ra ! l * (map (\<lambda>l. map (\<lambda>k. p k ! l) [0..<N]) [0..<n] ! l ! j))
        = (\<Sum>l\<leftarrow>[0..<n]. ra ! l * p j ! l)"
      by (rule arg_cong[where f=sum_list], rule map_cong[OF refl]) (use j in simp)
    also have "\<dots> = sum_list (map2 (*) ra (p j))"
      by (rule sum_list_nth_map2[OF len assms(3)[OF j]])
    finally show "(\<Sum>l\<leftarrow>[0..<n]. ra ! l * (map (\<lambda>l. map (\<lambda>k. p k ! l) [0..<N]) [0..<n] ! l ! j))
        = sum_list (map2 (*) ra (p j))" .
  qed
  then show ?thesis
    using assms(2) by (simp add: np_matmul_def cols_array_def cong: map_cong)
qed

section \<open>The phases of \<^verbatim>\<open>get_parallel_transform\<close> on valid input\<close>

lemma refspace_enum:
  "enumerate 0 refspace =
     [(0, (''coronal'', 13200)), (1, (''transverse'', 8000)), (2, (''sagittal'', 11400))]"
  by (simp add: refspace_def enumerate_eq_zip upt_rec)

lemma spec_grid_shape_coronal:
  "spec_grid_shape ''coronal'' ds = (nat (8000 div ds), nat (11400 div ds))"
  using floor_divide_of_int_eq[of 8000 ds, where ?'a = real]
    floor_divide_of_int_eq[of 11400 ds, where ?'a = real]
  by (simp add: spec_grid_shape_def spec_variable_axes_def spec_extent_def)

lemma spec_grid_shape_transverse:
  "spec_grid_shape ''transverse'' ds = (nat (13200 div ds), nat (11400 div ds))"
  using floor_divide_of_int_eq[of 13200 ds, where ?'a = real]
    floor_divide_of_int_eq[of 11400 ds, where ?'a = real]
  by (simp add: spec_grid_shape_def spec_variable_axes_def spec_extent_def)

lemma spec_grid_shape_sagittal:
  "spec_grid_shape ''sagittal'' ds = (nat (13200 div ds), nat (8000 div ds))"
  using floor_divide_of_int_eq[of 13200 ds, where ?'a = real]
    floor_divide_of_int_eq[of 8000 ds, where ?'a = real]
  by (simp add: spec_grid_shape_def spec_variable_axes_def spec_extent_def)

lemma select_axes_coronal:
  "ds \<noteq> 0 \<Longrightarrow> select_axes ''coronal'' ds = Inr (0, [1, 2], [8000 div ds, 11400 div ds])"
  by (simp add: select_axes_def refspace_enum py_getitem_def py_floordiv_def refspace_def)

lemma select_axes_transverse:
  "ds \<noteq> 0 \<Longrightarrow> select_axes ''transverse'' ds = Inr (1, [0, 2], [13200 div ds, 11400 div ds])"
  by (simp add: select_axes_def refspace_enum py_getitem_def py_floordiv_def refspace_def)

lemma select_axes_sagittal:
  "ds \<noteq> 0 \<Longrightarrow> select_axes ''sagittal'' ds = Inr (2, [0, 1], [13200 div ds, 8000 div ds])"
  by (simp add: select_axes_def refspace_enum py_getitem_def py_floordiv_def refspace_def)

lemma select_axes_unknown:
  assumes "\<not> axis_known axis"
  shows "select_axes axis ds = Inl IndexError"
proof -
  from assms have "''coronal'' \<noteq> axis" "''transverse'' \<noteq> axis" "''sagittal'' \<noteq> axis"
    by (auto simp: axis_known_def)
  then show ?thesis
    by (simp add: select_axes_def refspace_enum py_getitem_def)
qed


lemma select_axes_known:
  assumes "axis_known axis" "0 < ds" "spec_grid_shape axis ds = (G0, G1)"
    "axis_pos axis = (af, v0, v1)"
  shows "select_axes axis ds = Inr (af, [v0, v1], [int G0, int G1])"
  using assms unfolding axis_known_def
  by (auto simp: axis_pos_def select_axes_coronal select_axes_transverse select_axes_sagittal
      spec_grid_shape_coronal spec_grid_shape_transverse spec_grid_shape_sagittal
      pos_imp_zdiv_nonneg_iff)

lemma axis_pos_bounds:
  "axis_pos axis = (af, v0, v1) \<Longrightarrow> af < 4 \<and> v0 < 4 \<and> v1 < 4"
  by (auto simp: axis_pos_def split: if_splits)

lemma length_spec_ref_point: "length (spec_ref_point axis c ds i j) = 4"
  by (simp add: spec_ref_point_def)

lemma length_spec_section_point:
  "2 \<le> length (rows a3) \<Longrightarrow> length (spec_section_point a3 p) = 3"
  by (simp add: spec_section_point_def affine_apply_def)

lemma make_coords_ref_code:
  assumes "af < 4" "v0 < 4" "v1 < 4"
  shows "make_coords_ref af [v0, v1] [int G0, int G1] (int (G0 * G1)) c ds s =
    (Inr (length (heap s)),
     s\<lparr>heap := heap s @ [\<lparr>shape = (4, G0 * G1),
          rows = (replicate 4 (replicate (G0 * G1) 1))
                   [af := replicate (G0 * G1) c,
                    v0 := map (\<lambda>k. real (k div G1) * of_int ds) [0..<G0 * G1],
                    v1 := map (\<lambda>k. real (k mod G1) * of_int ds) [0..<G0 * G1]]\<rparr>],
        ops := ops s @ ref_ops\<rparr>)"
  using assms
  by (simp add: make_coords_ref_def bind_simps np_ones_nat np_imul_row_def np_indices_2
      np_reshape_2_pair np_mul_def np_astype_float_def np_setitem_rows_2 py_apply np_ones_nat2
      ref_ops_def o_def)

lemma coords_ref_rows:
  assumes "axis_known axis" "axis_pos axis = (af, v0, v1)"
  shows "\<lparr>shape = (4, G0 * G1),
          rows = (replicate 4 (replicate (G0 * G1) 1))
                   [af := replicate (G0 * G1) c,
                    v0 := map (\<lambda>k. real (k div G1) * of_int ds) [0..<G0 * G1],
                    v1 := map (\<lambda>k. real (k mod G1) * of_int ds) [0..<G0 * G1]]\<rparr>
       = cols_array 4 (G0 * G1) (\<lambda>k. spec_ref_point axis c ds (k div G1) (k mod G1))"
  using assms unfolding axis_known_def
  by (auto simp: axis_pos_def cols_array_def spec_ref_point_def replicate_4 upt_0_4
      map_replicate_const)

lemma make_coords_ref_ok:
  assumes "axis_known axis" "axis_pos axis = (af, v0, v1)"
  shows "make_coords_ref af [v0, v1] [int G0, int G1] (int (G0 * G1)) c ds s =
    (Inr (length (heap s)),
     s\<lparr>heap := heap s @ [cols_array 4 (G0 * G1) (\<lambda>k. spec_ref_point axis c ds (k div G1) (k mod G1))],
        ops := ops s @ ref_ops\<rparr>)"
  using axis_pos_bounds[OF assms(2)] coords_ref_rows[OF assms, of G0 G1 c ds]
  by (simp add: make_coords_ref_code del: of_nat_mult)

lemma make_coords_temp_ok:
  assumes a3: "a3 < length (heap s)" "wf_array (heap s ! a3)"
      "snd (shape (heap s ! a3)) = 4" "2 \<le> fst (shape (heap s ! a3))"
    and cr: "cr < length (heap s)" "heap s ! cr = cols_array 4 N p"
      "\<And>k. k < N \<Longrightarrow> length (p k) = 4"
  shows "make_coords_temp a3 cr (int N) s =
    (Inr (length (heap s)),
     s\<lparr>heap := heap s @ [cols_array 3 N (\<lambda>k. spec_section_point (heap s ! a3) (p k))],
        ops := ops s @ temp_ops\<rparr>)"
proof -
  obtain r0 r1 rest where r: "rows (heap s ! a3) = r0 # r1 # rest"
    using rows_two_or_more[OF a3(2,4)] by blast
  have mm: "np_matmul (heap s ! a3) (cols_array 4 N p) =
         Inr \<lparr>shape = (fst (shape (heap s ! a3)), N),
              rows = map (\<lambda>ra. map (\<lambda>k. sum_list (map2 (*) ra (p k))) [0..<N]) (r0 # r1 # rest)\<rparr>"
    using np_matmul_cols[OF a3(2,3), of N p] cr(3) r by simp
  have eq: "\<lparr>shape = (3, N), rows = [map (\<lambda>k. sum_list (map2 (*) r0 (p k))) [0..<N],
               map (\<lambda>k. sum_list (map2 (*) r1 (p k))) [0..<N], replicate N 1]\<rparr>
         = cols_array 3 N (\<lambda>k. spec_section_point (heap s ! a3) (p k))"
    by (simp add: cols_array_def spec_section_point_def affine_apply_def r upt_0_3
        map_replicate_const)
  show ?thesis
    using a3(1,4) cr(1,2)
    by (simp add: make_coords_temp_def bind_simps np_ones_nat nth_append mm np_take_rows_def
        np_setitem_rows_2 replicate_3 py_apply temp_ops_def eq min_def)
qed

lemma scaled_grid_ok:
  assumes "r < fst (shape ci)" "rows ci ! r = map f [0..<G0 * G1]"
  shows "scaled_grid ci r [int G0, int G1] di s =
    (Inr \<lparr>shape = (G0, G1), rows = map (\<lambda>i. map (\<lambda>j. f (i * G1 + j) / 2 powi di) [0..<G1]) [0..<G0]\<rparr>,
     s\<lparr>ops := ops s @ [OP_truediv]\<rparr>)"
  using assms
  by (simp add: scaled_grid_def bind_simps np_getitem_row_def np_reshape_grid_2 call_def
      np_truediv_def py_pow2_powi o_def)

text \<open>
  The whole call on valid input. The documented shapes are \<open>(2, 3)\<close> and \<open>(3, 4)\<close>; the
  code only needs the column counts and at least two rows in each matrix.
\<close>

lemma gpt_ok:
  assumes ax: "axis_known axis" and ds: "0 < ds"
    and a2: "a2 < length (heap s)" "wf_array (heap s ! a2)"
      "snd (shape (heap s ! a2)) = 3" "2 \<le> fst (shape (heap s ! a2))"
    and a3: "a3 < length (heap s)" "wf_array (heap s ! a3)"
      "snd (shape (heap s ! a3)) = 4" "2 \<le> fst (shape (heap s ! a3))"
  shows "get_parallel_transform c a2 a3 axis ds di s =
    (Inr (compute_transform_spec c (heap s ! a2) (heap s ! a3) axis ds di),
     s\<lparr>heap := heap s @ [spec_coords_ref axis c ds, spec_coords_temp (heap s ! a3) axis c ds],
        ops := ops s @ gpt_ops\<rparr>)"
proof -
  obtain G0 G1 where G: "spec_grid_shape axis ds = (G0, G1)" by (cases "spec_grid_shape axis ds")
  obtain af v0 v1 where pos: "axis_pos axis = (af, v0, v1)" by (cases "axis_pos axis") auto
  let ?N = "G0 * G1"
  let ?p = "\<lambda>k. spec_ref_point axis c ds (k div G1) (k mod G1)"
  let ?q = "\<lambda>k. spec_section_point (heap s ! a3) (?p k)"
  let ?CR = "cols_array 4 ?N ?p"
  let ?CT = "cols_array 3 ?N ?q"
  let ?s1 = "s\<lparr>ops := ops s @ [OP_prod]\<rparr>"
  let ?s2 = "s\<lparr>heap := heap s @ [?CR], ops := (ops s @ [OP_prod]) @ ref_ops\<rparr>"
  let ?s3 = "s\<lparr>heap := (heap s @ [?CR]) @ [?CT], ops := ((ops s @ [OP_prod]) @ ref_ops) @ temp_ops\<rparr>"
  let ?s4 = "?s3\<lparr>ops := ops ?s3 @ [OP_matmul]\<rparr>"
  let ?s5 = "?s4\<lparr>ops := ops ?s4 @ [OP_truediv]\<rparr>"
  let ?s6 = "?s5\<lparr>ops := ops ?s5 @ [OP_truediv]\<rparr>"
  have sel: "select_axes axis ds = Inr (af, [v0, v1], [int G0, int G1])"
    by (rule select_axes_known[OF ax ds G pos])
  have st2: "make_coords_ref af [v0, v1] [int G0, int G1] (int ?N) c ds ?s1 = (Inr (length (heap s)), ?s2)"
    using make_coords_ref_ok[OF ax pos, of G0 G1 c ds ?s1] by simp
  have len3: "2 \<le> length (rows (heap s ! a3))"
    using a3 by (simp add: wf_array_def)
  have st3: "make_coords_temp a3 (length (heap s)) (int ?N) ?s2 = (Inr (Suc (length (heap s))), ?s3)"
    using make_coords_temp_ok[of a3 ?s2 "length (heap s)" ?N ?p] a3
    by (simp add: nth_append length_spec_ref_point)
  obtain t0 t1 rest where t: "rows (heap s ! a2) = t0 # t1 # rest"
    using rows_two_or_more[OF a2(2,4)] by blast
  let ?CI = "\<lparr>shape = (fst (shape (heap s ! a2)), ?N),
              rows = map (\<lambda>ra. map (\<lambda>k. sum_list (map2 (*) ra (?q k))) [0..<?N]) (t0 # t1 # rest)\<rparr>"
  have mm: "np_matmul (heap s ! a2) ?CT = Inr ?CI"
    using np_matmul_cols[OF a2(2,3), of ?N ?q] t len3
    by (simp add: length_spec_section_point)
  have cell: "map (\<lambda>i. map (\<lambda>j. sum_list (map2 (*) ra (?q (i * G1 + j))) / 2 powi di) [0..<G1]) [0..<G0]
     = map (\<lambda>i. map (\<lambda>j. sum_list (map2 (*) ra
           (spec_section_point (heap s ! a3) (spec_ref_point axis c ds i j))) / 2 powi di)
         [0..<G1]) [0..<G0]" for ra
    by (simp cong: map_cong)
  have st5: "scaled_grid ?CI 0 [int G0, int G1] di ?s4
      = (Inr (spec_grid 0 c (heap s ! a2) (heap s ! a3) axis ds di), ?s5)"
    using scaled_grid_ok[of 0 ?CI "\<lambda>k. sum_list (map2 (*) t0 (?q k))" G0 G1 di ?s4] a2(4)
    by (simp add: spec_grid_def G spec_pixel_def affine_apply_def t cell)
  have st6: "scaled_grid ?CI 1 [int G0, int G1] di ?s5
      = (Inr (spec_grid 1 c (heap s ! a2) (heap s ! a3) axis ds di), ?s6)"
    using scaled_grid_ok[of 1 ?CI "\<lambda>k. sum_list (map2 (*) t1 (?q k))" G0 G1 di ?s5] a2(4)
    by (simp add: spec_grid_def G spec_pixel_def affine_apply_def t cell)
  have b2: "bind (make_coords_ref af [v0, v1] [int G0, int G1] (int ?N) c ds) f ?s1
              = f (length (heap s)) ?s2" for f :: "nat \<Rightarrow> displacement_field py"
    using st2 by (simp add: bind_def)
  have b3: "bind (make_coords_temp a3 (length (heap s)) (int ?N)) f ?s2
              = f (Suc (length (heap s))) ?s3" for f :: "nat \<Rightarrow> displacement_field py"
    using st3 by (simp add: bind_def)
  have b5: "bind (scaled_grid ?CI 0 [int G0, int G1] di) f ?s4
              = f (spec_grid 0 c (heap s ! a2) (heap s ! a3) axis ds di) ?s5"
    for f :: "real ndarray \<Rightarrow> displacement_field py"
    using st5 by (simp add: bind_def)
  have b6: "bind (scaled_grid ?CI 1 [int G0, int G1] di) f ?s5
              = f (spec_grid 1 c (heap s ! a2) (heap s ! a3) axis ds di) ?s6"
    for f :: "real ndarray \<Rightarrow> displacement_field py"
    using st6 by (simp add: bind_def)
  have "get_parallel_transform c a2 a3 axis ds di s =
      (Inr (compute_transform_spec c (heap s ! a2) (heap s ! a3) axis ds di), ?s6)"
    unfolding get_parallel_transform_def
    apply (simp only: sel bind_py sum.case prod.case bind_call np_prod_2)
    apply (simp only: b2)
    apply (simp only: b3)
    apply (simp add: bind_deref nth_append a2 bind_call mm del: of_nat_mult)
    apply (simp only: b5 [simplified] b6 [simplified])
    apply (simp add: py_apply compute_transform_spec_def from_transform_def)
    done
  then show ?thesis
    by (simp add: spec_coords_ref_def spec_coords_temp_def G gpt_ops_def)
qed

section \<open>Evaluating the specification's transform on small grids\<close>




section \<open>The transform engine computes what the specification describes\<close>





section \<open>Laws of the displacement field\<close>

lemma field_at_spec:
  assumes "spec_grid_shape axis ds = (G0, G1)" "i < G0" "j < G1"
  shows "field_at (compute_transform_spec c a2 a3 axis ds di) i j =
     (spec_pixel a2 a3 (spec_ref_point axis c ds i j) ! 0 / 2 powi di,
      spec_pixel a2 a3 (spec_ref_point axis c ds i j) ! 1 / 2 powi di)"
  using assms by (simp add: field_at_def compute_transform_spec_def spec_grid_def)

lemma spec_pixel_identity:
  assumes "axis_known axis"
  shows "spec_pixel identity_2d (canonical_embedding axis) (spec_ref_point axis c ds i j) =
     [real i * of_int ds, real j * of_int ds]"
  using assms unfolding axis_known_def
  by (auto simp: spec_pixel_def spec_section_point_def affine_apply_def identity_2d_def
      canonical_embedding_def spec_ref_point_def)

lemma identity_inputs_valid:
  "wf_array identity_2d" "shape identity_2d = (2, 3)"
  "wf_array (canonical_embedding axis)" "shape (canonical_embedding axis) = (3, 4)"
  by (simp_all add: identity_2d_def canonical_embedding_def wf_array_def)

text \<open>
  C3, as stated, fails: with the canonical embedding and the identity-like matrix the
  field at grid index \<open>(0, 1)\<close> is \<open>(0, 4000)\<close> for a coronal slice and
  \<open>downsample_ref = 4000\<close>, not \<open>(1, 0)\<close> scaled by \<open>4000\<close>.
\<close>

theorem identity_law_counterexample:
  "result_field_at (get_parallel_transform 0 0 1 ''coronal'' 4000 0 ex_identity_state) 0 1
     = Some (0, 4000)
   \<and> Some (0 :: real, 4000 :: real) \<noteq> Some (real 1 * 4000, real 0 * 4000)"
proof -
  have k: "axis_known ''coronal''" by (simp add: axis_known_def)
  have "get_parallel_transform 0 0 1 ''coronal'' 4000 0 ex_identity_state =
    (Inr (compute_transform_spec 0 identity_2d (canonical_embedding ''coronal'') ''coronal'' 4000 0),
     ex_identity_state\<lparr>heap := heap ex_identity_state @
         [spec_coords_ref ''coronal'' 0 4000,
          spec_coords_temp (canonical_embedding ''coronal'') ''coronal'' 0 4000],
        ops := ops ex_identity_state @ gpt_ops\<rparr>)"
    using gpt_ok[OF k, of 4000 0 ex_identity_state 1 0 0] identity_inputs_valid
    by (simp add: ex_identity_state_def)
  moreover have "field_at (compute_transform_spec 0 identity_2d (canonical_embedding ''coronal'')
      ''coronal'' 4000 0) 0 1 = (0, 4000)"
    using field_at_spec[of "''coronal''" 4000 2 2 0 1 0 identity_2d
        "canonical_embedding ''coronal''" 0]
    by (simp add: spec_grid_shape_coronal spec_pixel_identity[OF k])
  ultimately show ?thesis
    by (simp add: result_field_at_def)
qed

text \<open>
  C3, amended: with the canonical embedding and the identity-like matrix, and
  \<open>downsample_img = 0\<close>, the field at every grid index \<open>(i, j)\<close> is \<open>(i, j)\<close> scaled by
  \<open>downsample_ref\<close>.
\<close>

theorem identity_law_amended:
  assumes "axis_known axis" and "1 \<le> ds"
    and "a2 < length (heap s)" and "heap s ! a2 = identity_2d"
    and "a3 < length (heap s)" and "heap s ! a3 = canonical_embedding axis"
    and "i < fst (spec_grid_shape axis ds)" and "j < snd (spec_grid_shape axis ds)"
  shows "result_field_at (get_parallel_transform c a2 a3 axis ds 0 s) i j
     = Some (real i * of_int ds, real j * of_int ds)"
proof -
  have "get_parallel_transform c a2 a3 axis ds 0 s =
    (Inr (compute_transform_spec c identity_2d (canonical_embedding axis) axis ds 0),
     s\<lparr>heap := heap s @ [spec_coords_ref axis c ds,
          spec_coords_temp (canonical_embedding axis) axis c ds],
        ops := ops s @ gpt_ops\<rparr>)"
    using gpt_ok[OF assms(1), of ds a2 s a3 c 0] assms(2,3,4,5,6) identity_inputs_valid
    by simp
  moreover have "field_at (compute_transform_spec c identity_2d (canonical_embedding axis)
      axis ds 0) i j = (real i * of_int ds, real j * of_int ds)"
    using field_at_spec[of axis ds "fst (spec_grid_shape axis ds)" "snd (spec_grid_shape axis ds)"
        i j c identity_2d "canonical_embedding axis" 0] assms(7,8)
    by (simp add: spec_pixel_identity[OF assms(1)])
  ultimately show ?thesis
    by (simp add: result_field_at_def)
qed

theorem identity_law_amended_witness:
  "axis_known ''coronal'' \<and> (1::int) \<le> 4000 \<and>
   (1::nat) < fst (spec_grid_shape ''coronal'' 4000) \<and>
   (0::nat) < snd (spec_grid_shape ''coronal'' 4000) \<and>
   result_field_at (get_parallel_transform 9 0 1 ''coronal'' 4000 0 ex_identity_state) 1 0
     = Some (4000, 0)"
  using identity_law_amended[where axis = "''coronal''" and ds = 4000 and s = ex_identity_state
      and ?a2.0 = 0 and ?a3.0 = 1 and i = 1 and j = 0 and c = 9]
  by (simp add: axis_known_def ex_identity_state_def spec_grid_shape_coronal)









section \<open>Errors\<close>

text \<open>
  C5. An axis outside the three known names makes the call fail at once: the lookup of
  the fixed axis raises (an \<^verbatim>\<open>IndexError\<close>, the list of candidates being empty) and the
  state is left as it was, so no numpy operation, in particular no matrix product, has
  been executed, no array has been created, and nothing is returned.
\<close>

theorem unknown_axis_fails_first:
  assumes "axis \<noteq> ''coronal''" and "axis \<noteq> ''transverse''" and "axis \<noteq> ''sagittal''"
  shows "get_parallel_transform c a2 a3 axis ds di s = (Inl IndexError, s)"
proof -
  have "\<not> axis_known axis" using assms by (simp add: axis_known_def)
  then have "select_axes axis ds = Inl IndexError" by (rule select_axes_unknown)
  then show ?thesis
    by (simp add: get_parallel_transform_def bind_py)
qed

theorem unknown_axis_fails_first_witness:
  "''axial'' \<noteq> ''coronal'' \<and> ''axial'' \<noteq> ''transverse'' \<and> ''axial'' \<noteq> ''sagittal'' \<and>
   get_parallel_transform 7 0 1 ''axial'' 25 0 ex_state = (Inl IndexError, ex_state)"
  using unknown_axis_fails_first[of "''axial''" 7 0 1 25 0 ex_state] by simp












section \<open>The call writes only into arrays it has created\<close>

lemma keeps_below_py: "keeps_below n (py r)"
  by (simp add: keeps_below_def py_def)

lemma keeps_below_call: "keeps_below n (call c r)"
  by (simp add: keeps_below_def call_def)

lemma keeps_below_deref: "keeps_below n (deref p)"
  by (simp add: keeps_below_def deref_def)

lemma keeps_below_modify: "n \<le> p \<Longrightarrow> keeps_below n (modify c p g)"
  by (auto simp: keeps_below_def modify_def split: sum.splits)

lemma keeps_below_bind:
  assumes "keeps_below n m" "\<And>x. keeps_below n (f x)"
  shows "keeps_below n (bind m f)"
  unfolding keeps_below_def
proof (intro allI impI)
  fix s :: pstate assume n: "n \<le> length (heap s)"
  obtain r s1 where ms: "m s = (r, s1)" by (cases "m s")
  have 1: "n \<le> length (heap s1)" "take n (heap s1) = take n (heap s)"
    using assms(1) n ms by (auto simp: keeps_below_def)
  show "n \<le> length (heap (snd (bind m f s))) \<and> take n (heap (snd (bind m f s))) = take n (heap s)"
  proof (cases r)
    case (Inl e)
    then show ?thesis using ms 1 by (simp add: bind_def)
  next
    case (Inr x)
    have "n \<le> length (heap (snd (f x s1))) \<and> take n (heap (snd (f x s1))) = take n (heap s1)"
      using assms(2)[of x] 1(1) by (simp add: keeps_below_def)
    then show ?thesis using ms Inr 1 by (simp add: bind_def)
  qed
qed

lemma keeps_below_bind_alloc:
  assumes "\<And>p. n \<le> p \<Longrightarrow> keeps_below n (f p)"
  shows "keeps_below n (bind (alloc a) f)"
  unfolding keeps_below_def
proof (intro allI impI)
  fix s :: pstate assume n: "n \<le> length (heap s)"
  let ?s1 = "s\<lparr>heap := heap s @ [a]\<rparr>"
  have "n \<le> length (heap (snd (f (length (heap s)) ?s1))) \<and>
        take n (heap (snd (f (length (heap s)) ?s1))) = take n (heap ?s1)"
    using assms[OF n] n by (simp add: keeps_below_def)
  then show "n \<le> length (heap (snd (bind (alloc a) f s))) \<and>
        take n (heap (snd (bind (alloc a) f s))) = take n (heap s)"
    using n by (simp add: bind_alloc)
qed

lemma keeps_below_make_coords_ref:
  "keeps_below n (make_coords_ref af av gs np c ds)"
  unfolding make_coords_ref_def
  by (intro keeps_below_bind_alloc keeps_below_bind keeps_below_call keeps_below_py
      keeps_below_modify) simp_all

lemma keeps_below_make_coords_temp:
  "keeps_below n (make_coords_temp a3 cr np)"
  unfolding make_coords_temp_def
  by (intro keeps_below_bind_alloc keeps_below_bind keeps_below_call keeps_below_py
      keeps_below_deref keeps_below_modify) simp_all

lemma keeps_below_scaled_grid:
  "keeps_below n (scaled_grid ci r gs di)"
  unfolding scaled_grid_def
  by (intro keeps_below_bind keeps_below_call keeps_below_py)

lemma keeps_below_gpt:
  "keeps_below n (get_parallel_transform c a2 a3 axis ds di)"
  unfolding get_parallel_transform_def
  apply (rule keeps_below_bind[OF keeps_below_py])
  apply (simp only: split_paired_all prod.case)
  apply (intro keeps_below_bind keeps_below_call keeps_below_py keeps_below_deref
      keeps_below_make_coords_ref keeps_below_make_coords_temp keeps_below_scaled_grid)
  done

text \<open>
  C10. The call never changes its arguments. The slice coordinate, the axis name and
  the two factors are immutable values. The two matrices are arrays in the store: after
  the call, whether it returned or raised, every array that existed before it, the two
  matrices among them, is what it was; the call has only added arrays of its own.
\<close>

theorem arguments_not_mutated:
  assumes "a2 < length (heap s)" and "a3 < length (heap s)"
  shows "heap (snd (get_parallel_transform c a2 a3 axis ds di s)) ! a2 = heap s ! a2
    \<and> heap (snd (get_parallel_transform c a2 a3 axis ds di s)) ! a3 = heap s ! a3
    \<and> take (length (heap s)) (heap (snd (get_parallel_transform c a2 a3 axis ds di s))) = heap s"
proof -
  let ?h = "heap (snd (get_parallel_transform c a2 a3 axis ds di s))"
  have t: "take (length (heap s)) ?h = heap s"
    using keeps_below_gpt[of "length (heap s)" c a2 a3 axis ds di]
    by (simp add: keeps_below_def)
  have "?h ! a = heap s ! a" if "a < length (heap s)" for a
  proof -
    have "take (length (heap s)) ?h ! a = ?h ! a" using that by simp
    then show ?thesis using t by simp
  qed
  then show ?thesis using assms t by simp
qed

theorem arguments_not_mutated_witness:
  "(0::nat) < length (heap ex_state) \<and> (1::nat) < length (heap ex_state) \<and>
   heap (snd (get_parallel_transform 7 0 1 ''coronal'' 4000 0 ex_state)) ! 0 = ex_affine_2d \<and>
   heap (snd (get_parallel_transform 7 0 1 ''coronal'' 4000 0 ex_state)) ! 1 = ex_affine_3d"
  using arguments_not_mutated[of 0 ex_state 1 7 "''coronal''" 4000 0]
  by (simp add: ex_state_def)

section \<open>The dataset synchronizer\<close>

lemma items_comprehension:
  "[(image_id, affine_2d, section_number).
      (image_id, (affine_2d, section_number)) \<leftarrow> items] = items"
  by (induction items) auto

lemma sorted_metadata_sort_key:
  "sorted_metadata items = sort_key (\<lambda>x. - snd (snd x)) items"
  by (simp add: sorted_metadata_def items_comprehension)

lemma dataset_loop_order:
  assumes "dataset_loop C axis affine_3d downsample_ref detection_xy include_expression
     downsample_img md s = ((ys, err), s')"
  shows "length ys \<le> length md \<and>
         map (\<lambda>y. y ! 0) ys = map (\<lambda>x. PyInt (fst x)) (take (length ys) md) \<and>
         (err = None \<longrightarrow> length ys = length md)"
  using assms
proof (induction md arbitrary: s ys err s')
  case Nil
  then show ?case by simp
next
  case (Cons x md)
  obtain image_id affine_2d section_number where x: "x = (image_id, affine_2d, section_number)"
    by (cases x)
  show ?case
    using Cons.prems Cons.IH unfolding x
    by (auto simp: Let_def split: sum.splits prod.splits if_splits)
qed

lemma dataset_loop_records:
  assumes "dataset_loop C axis affine_3d downsample_ref detection_xy include_expression
     downsample_img md s = ((ys, err), s')" and "y \<in> set ys"
  shows "length y = (if include_expression then 5 else 4) \<and>
     (\<exists>image_id p i r. y ! 0 = PyInt image_id \<and>
        xy_to_pir_API_single C (fst detection_xy) (snd detection_xy) image_id = Inr (p, i, r) \<and>
        y ! 1 = PyFloat (if axis = ''coronal'' then p else r))"
  using assms
proof (induction md arbitrary: s ys err s')
  case Nil
  then show ?case by simp
next
  case (Cons x md)
  obtain image_id affine_2d section_number where x: "x = (image_id, affine_2d, section_number)"
    by (cases x)
  show ?case
    using Cons.prems Cons.IH unfolding x
    by (auto simp: Let_def split: sum.splits prod.splits if_splits)
qed

text \<open>
  C7. The images are visited, and their tuples yielded, in the order of the metadata
  sorted by descending section number: the image identifiers of the tuples yielded are
  those of an initial part of the sorted list, of all of it when the generator is
  exhausted without an exception. In the sorted list the section numbers never increase,
  and images with the same section number keep the order in which the bulk metadata
  listed them.
\<close>

theorem images_in_descending_section_order:
  assumes "get_2d_bulk C dataset_id = Inr items"
    and "download_parallel_dataset C dataset_id downsample_ref detection_xy include_expression
           downsample_img s = ((ys, err), s')"
  shows "map (\<lambda>y. y ! 0) ys = map (\<lambda>x. PyInt (fst x)) (take (length ys) (sorted_metadata items))
    \<and> (err = None \<longrightarrow> length ys = length items)
    \<and> sorted_wrt (\<lambda>a b. snd (snd a) \<ge> snd (snd b)) (sorted_metadata items)
    \<and> (\<forall>k. filter (\<lambda>x. snd (snd x) = k) (sorted_metadata items)
            = filter (\<lambda>x. snd (snd x) = k) items)
    \<and> set (sorted_metadata items) = set items
    \<and> length (sorted_metadata items) = length items"
proof -
  have order: "map (\<lambda>y. y ! 0) ys = map (\<lambda>x. PyInt (fst x)) (take (length ys) (sorted_metadata items))
      \<and> (err = None \<longrightarrow> length ys = length (sorted_metadata items))"
  proof (cases "get_3d C dataset_id")
    case (Inl e)
    then show ?thesis using assms by (auto simp: download_parallel_dataset_def)
  next
    case a3: (Inr affine_3d)
    show ?thesis
    proof (cases "get_axis C dataset_id")
      case (Inl e)
      then show ?thesis using assms a3 by (auto simp: download_parallel_dataset_def)
    next
      case (Inr axis)
      then have "dataset_loop C axis affine_3d downsample_ref detection_xy include_expression
          downsample_img (sorted_metadata items) s = ((ys, err), s')"
        using assms a3 by (simp add: download_parallel_dataset_def)
      from dataset_loop_order[OF this] show ?thesis by simp
    qed
  qed
  have "sorted (map (\<lambda>x. - snd (snd x)) (sorted_metadata items))"
    by (simp add: sorted_metadata_sort_key)
  then have desc: "sorted_wrt (\<lambda>a b. snd (snd a) \<ge> snd (snd b)) (sorted_metadata items)"
    by (simp add: sorted_map)
  have stable: "filter (\<lambda>x. snd (snd x) = k) (sorted_metadata items)
            = filter (\<lambda>x. snd (snd x) = k) items" for k
    using sort_key_stable[of "\<lambda>x. - snd (snd x)" "- k" items]
    by (simp add: sorted_metadata_sort_key)
  from order desc stable show ?thesis
    by (simp add: sorted_metadata_sort_key)
qed

text \<open>
  C8. Every tuple yielded has four elements without the expression image and five with
  it, and its second element is the \<open>p\<close> coordinate that \<^verbatim>\<open>xy_to_pir_API_single\<close> resolved
  for its image when the axis of the dataset is coronal, the \<open>r\<close> coordinate otherwise.
\<close>

theorem yielded_tuple_length_and_coordinate:
  assumes "download_parallel_dataset C dataset_id downsample_ref detection_xy include_expression
           downsample_img s = ((ys, err), s')"
    and "y \<in> set ys"
  shows "length y = (if include_expression then 5 else 4) \<and>
     (\<exists>axis image_id p i r. get_axis C dataset_id = Inr axis \<and> y ! 0 = PyInt image_id \<and>
        xy_to_pir_API_single C (fst detection_xy) (snd detection_xy) image_id = Inr (p, i, r) \<and>
        y ! 1 = PyFloat (if axis = ''coronal'' then p else r))"
proof -
  from assms obtain items affine_3d axis where
    c: "get_2d_bulk C dataset_id = Inr items" "get_3d C dataset_id = Inr affine_3d"
       "get_axis C dataset_id = Inr axis"
    by (auto simp: download_parallel_dataset_def split: sum.splits)
  then have "dataset_loop C axis affine_3d downsample_ref detection_xy include_expression
          downsample_img (sorted_metadata items) s = ((ys, err), s')"
    using assms(1) by (simp add: download_parallel_dataset_def)
  from dataset_loop_records[OF this assms(2)] c(3) show ?thesis by blast
qed

lemma ex_transform_8000:
  "compute_transform_spec c ex_affine_2d ex_affine_3d ''coronal'' 8000 0 = ex_field"
  by (simp add: compute_transform_spec_def spec_grid_def spec_grid_shape_coronal
      spec_pixel_def spec_section_point_def affine_apply_def spec_ref_point_def
      ex_affine_2d_def ex_affine_3d_def ex_field_def)

lemma ex_gpt_8000:
  assumes "2 \<le> length (heap s)" "heap s ! 0 = ex_affine_2d" "heap s ! Suc 0 = ex_affine_3d"
  shows "get_parallel_transform c 0 (Suc 0) ''coronal'' 8000 0 s =
    (Inr ex_field,
     s\<lparr>heap := heap s @ [spec_coords_ref ''coronal'' c 8000,
          spec_coords_temp ex_affine_3d ''coronal'' c 8000],
        ops := ops s @ gpt_ops\<rparr>)"
proof -
  have "get_parallel_transform c 0 (Suc 0) ''coronal'' 8000 0 s =
    (Inr (compute_transform_spec c (heap s ! 0) (heap s ! Suc 0) ''coronal'' 8000 0),
     s\<lparr>heap := heap s @ [spec_coords_ref ''coronal'' c 8000,
          spec_coords_temp (heap s ! Suc 0) ''coronal'' c 8000],
        ops := ops s @ gpt_ops\<rparr>)"
    by (rule gpt_ok)
      (use assms in \<open>auto simp: axis_known_def ex_affine_2d_def ex_affine_3d_def wf_array_def\<close>)
  then show ?thesis
    by (simp add: assms(2,3) ex_transform_8000)
qed

lemma ex_sorted_metadata:
  "sorted_metadata [(101, 0, 10), (102, 0, 30), (103, 0, 20)]
     = [(102, 0, 30), (103, 0, 20), (101, 0, 10)]"
  by (simp add: sorted_metadata_sort_key)

lemma ex_download:
  "fst (download_parallel_dataset ex_collaborators 1 8000 (0, 0) include_expression 0 ex_state) =
     (if include_expression then
        [[PyInt 102, PyFloat 102, PyImage 0, PyField ex_field, PyImage 1],
         [PyInt 103, PyFloat 103, PyImage 0, PyField ex_field, PyImage 1],
         [PyInt 101, PyFloat 101, PyImage 0, PyField ex_field, PyImage 1]]
      else
        [[PyInt 102, PyFloat 102, PyImage 0, PyField ex_field],
         [PyInt 103, PyFloat 103, PyImage 0, PyField ex_field],
         [PyInt 101, PyFloat 101, PyImage 0, PyField ex_field]], None)"
  by (simp add: download_parallel_dataset_def ex_collaborators_def ex_sorted_metadata
      ex_gpt_8000 ex_state_def)

theorem images_in_descending_section_order_witness:
  "get_2d_bulk ex_collaborators 1 = Inr [(101, 0, 10), (102, 0, 30), (103, 0, 20)] \<and>
   sorted_metadata [(101, 0, 10), (102, 0, 30), (103, 0, 20)]
     = [(102, 0, 30), (103, 0, 20), (101, 0, 10)] \<and>
   snd (fst (download_parallel_dataset ex_collaborators 1 8000 (0, 0) False 0 ex_state)) = None \<and>
   length (fst (fst (download_parallel_dataset ex_collaborators 1 8000 (0, 0) False 0 ex_state)))
     = 3 \<and>
   map (\<lambda>y. y ! 0)
     (fst (fst (download_parallel_dataset ex_collaborators 1 8000 (0, 0) False 0 ex_state)))
     = [PyInt 102, PyInt 103, PyInt 101]"
proof -
  let ?D = "download_parallel_dataset ex_collaborators 1 8000 (0, 0) False 0 ex_state"
  have b: "get_2d_bulk ex_collaborators 1 = Inr [(101, 0, 10), (102, 0, 30), (103, 0, 20)]"
    by (simp add: ex_collaborators_def)
  have d: "?D = ((fst (fst ?D), snd (fst ?D)), snd ?D)" by simp
  have n: "snd (fst ?D) = None" by (simp add: ex_download)
  from images_in_descending_section_order[OF b d] n b show ?thesis
    by (simp add: ex_sorted_metadata)
qed

theorem yielded_tuple_length_and_coordinate_witness:
  "[PyInt 103, PyFloat 103, PyImage 0, PyField ex_field, PyImage 1]
     \<in> set (fst (fst (download_parallel_dataset ex_collaborators 1 8000 (0, 0) True 0 ex_state))) \<and>
   length [PyInt 103, PyFloat 103, PyImage (0::nat), PyField ex_field, PyImage 1] = 5 \<and>
   get_axis ex_collaborators 1 = Inr ''coronal'' \<and>
   xy_to_pir_API_single ex_collaborators 0 0 103 = Inr (103, 0, 1)"
proof -
  let ?D = "download_parallel_dataset ex_collaborators 1 8000 (0, 0) True 0 ex_state"
  let ?y = "[PyInt 103, PyFloat 103, PyImage (0::nat), PyField ex_field, PyImage 1]"
  have d: "?D = ((fst (fst ?D), snd (fst ?D)), snd ?D)" by simp
  have m: "?y \<in> set (fst (fst ?D))" by (simp add: ex_download)
  from yielded_tuple_length_and_coordinate[OF d m] m show ?thesis
    by (simp add: ex_collaborators_def)
qed

end
